theory Spec2Isabelle
  imports Complex_Main "HOL-Library.Sublist"
begin

section \<open>Python text\<close>





definition startswith :: "string \<Rightarrow> string \<Rightarrow> bool" where
  "startswith s p = (take (length p) s = p)"


subsection \<open>\<open>int(s)\<close>\<close>








subsection \<open>\<open>strip_ansi_codes\<close>\<close>










section \<open>Python values\<close>

text \<open>
  A transform object of the external renderer is recorded as the constructor call that
  made it, with the arguments it was given; what the renderer computes from them, and
  whether it rejects them, is outside this repository.
\<close>

datatype 'a transform =
    FromMatrix 'a            \<comment> \<open>\<open>ScalarTransform4f(np.array(m, dtype=np.float32))\<close>\<close>
  | FromFlat 'a              \<comment> \<open>the same after \<open>.reshape(4, 4)\<close>\<close>
  | LookAt 'a 'a 'a          \<comment> \<open>\<open>look_at(origin=, target=, up=)\<close>\<close>
  | Translate 'a
  | Scale 'a
  | Rotate 'a 'a             \<comment> \<open>\<open>rotate(axis, angle)\<close>\<close>
  | Identity                 \<comment> \<open>\<open>ScalarTransform4f()\<close>\<close>
  | Compose "'a transform" "'a transform"   \<comment> \<open>\<open>a @ b\<close>\<close>

text \<open>
  The plain data a scene dictionary or a parameter dictionary holds.  A dictionary is
  its list of items in insertion order, with string keys.  A float is the real number
  it stands for: rounding is not modelled.
\<close>

datatype pyval =
    PNone
  | PBool bool
  | PInt int
  | PFloat real
  | PStr string
  | PList "pyval list"
  | PTuple "pyval list"
  | PDict "(string \<times> pyval) list"
  | PTransform "pyval transform"

datatype exn =
    IndexError
  | KeyError string
  | AttributeError
  | TypeError
  | OverflowError
  | Raised string            \<comment> \<open>an exception raised by a library or by \<open>raise Exception(msg)\<close>\<close>

text \<open>\<open>d.get(key, default)\<close>; only a dictionary has the method.\<close>

definition dict_get :: "pyval \<Rightarrow> string \<Rightarrow> pyval \<Rightarrow> exn + pyval" where
  "dict_get d key dflt =
     (case d of
        PDict kvs \<Rightarrow> (case map_of kvs key of None \<Rightarrow> Inr dflt | Some v \<Rightarrow> Inr v)
      | _ \<Rightarrow> Inl AttributeError)"

text \<open>\<open>d[key]\<close> for a string key.\<close>

definition subscript :: "pyval \<Rightarrow> string \<Rightarrow> exn + pyval" where
  "subscript d key =
     (case d of
        PDict kvs \<Rightarrow> (case map_of kvs key of None \<Rightarrow> Inl (KeyError key) | Some v \<Rightarrow> Inr v)
      | _ \<Rightarrow> Inl TypeError)"

text \<open>\<open>d[key] = v\<close> on a dictionary that has the key: the item keeps its place.\<close>

definition dict_set :: "string \<Rightarrow> pyval \<Rightarrow> (string \<times> pyval) list \<Rightarrow> (string \<times> pyval) list" where
  "dict_set key v kvs = map (\<lambda>(k, old). if k = key then (k, v) else (k, old)) kvs"

definition is_list :: "pyval \<Rightarrow> bool" where
  "is_list v = (case v of PList _ \<Rightarrow> True | _ \<Rightarrow> False)"

definition is_dict :: "pyval \<Rightarrow> bool" where
  "is_dict v = (case v of PDict _ \<Rightarrow> True | _ \<Rightarrow> False)"

definition is_transform :: "pyval \<Rightarrow> bool" where
  "is_transform v = (case v of PTransform _ \<Rightarrow> True | _ \<Rightarrow> False)"

text \<open>\<open>isinstance(v, (int, float))\<close>; \<open>bool\<close> is a subclass of \<open>int\<close>.\<close>

definition is_number :: "pyval \<Rightarrow> bool" where
  "is_number v = (case v of PInt _ \<Rightarrow> True | PFloat _ \<Rightarrow> True | PBool _ \<Rightarrow> True | _ \<Rightarrow> False)"

section \<open>Transform preprocessing\<close>

subsection \<open>\<open>render_subprocess.py\<close>\<close>

text \<open>The transform for the \<open>type\<close> entry, before the child is composed.\<close>

definition transform_of_type :: "pyval \<Rightarrow> pyval transform" where
  "transform_of_type d =
     (let get = (\<lambda>key dflt. case dict_get d key dflt of Inr v \<Rightarrow> v | Inl _ \<Rightarrow> dflt);
          transform_type = get ''type'' (PStr ''identity'')
      in if transform_type = PStr ''look_at'' then
           LookAt (get ''origin'' (PList [PInt 0, PInt 0, PInt 0]))
                  (get ''target'' (PList [PInt 0, PInt 0, PInt 0]))
                  (get ''up'' (PList [PInt 0, PInt 1, PInt 0]))
         else if transform_type = PStr ''translate'' then
           Translate (get ''value'' (PList [PInt 0, PInt 0, PInt 0]))
         else if transform_type = PStr ''scale'' then
           (let v = get ''value'' (PFloat 1)
            in if is_number v then Scale (PList [v, v, v]) else Scale v)
         else if transform_type = PStr ''rotate'' then
           Rotate (get ''axis'' (PList [PInt 0, PInt 0, PInt 1])) (get ''angle'' (PFloat 0))
         else Identity)"

text \<open>\<open>_build_transform\<close>.  Its first statement calls \<open>.get\<close>, so anything but a
  dictionary raises \<open>AttributeError\<close>.  \<open>first_child\<close> walks the items to the
  \<open>child\<close> entry and builds it.\<close>

fun build_transform :: "pyval \<Rightarrow> exn + pyval transform"
  and first_child :: "(string \<times> pyval) list \<Rightarrow> (exn + pyval transform) option" where
  "build_transform (PDict kvs) =
     (case first_child kvs of
        None \<Rightarrow> Inr (transform_of_type (PDict kvs))
      | Some (Inl e) \<Rightarrow> Inl e
      | Some (Inr child_transform) \<Rightarrow>
          Inr (Compose (transform_of_type (PDict kvs)) child_transform))"
| "build_transform PNone = Inl AttributeError"
| "build_transform (PBool _) = Inl AttributeError"
| "build_transform (PInt _) = Inl AttributeError"
| "build_transform (PFloat _) = Inl AttributeError"
| "build_transform (PStr _) = Inl AttributeError"
| "build_transform (PList _) = Inl AttributeError"
| "build_transform (PTuple _) = Inl AttributeError"
| "build_transform (PTransform _) = Inl AttributeError"
| "first_child [] = None"
| "first_child ((k, v) # kvs) =
     (if k = ''child'' then Some (build_transform v) else first_child kvs)"

text \<open>The new value of a \<open>to_world\<close> entry that is a list or a dictionary: a list
  becomes a matrix transform (\<open>to_world[0]\<close> raises on the empty list), a dictionary
  is built.\<close>

definition convert_to_world :: "pyval \<Rightarrow> exn + pyval" where
  "convert_to_world to_world =
     (case to_world of
        PList items \<Rightarrow>
          (case items of
             [] \<Rightarrow> Inl IndexError
           | first # _ \<Rightarrow>
               if is_list first then Inr (PTransform (FromMatrix to_world))
               else Inr (PTransform (FromFlat to_world)))
      | PDict _ \<Rightarrow>
          (case build_transform to_world of
             Inl e \<Rightarrow> Inl e
           | Inr t \<Rightarrow> Inr (PTransform t))
      | _ \<Rightarrow> Inr to_world)"

text \<open>
  \<open>_process_recursive\<close> updates the object in place; here it returns the updated
  value.  For a dictionary the \<open>to_world\<close> entry, when it is a list or a dictionary,
  is converted and stored first, then the values under every other key are processed in
  item order; for a list every item; anything else (a tuple too) is left alone.
\<close>

fun process_recursive :: "pyval \<Rightarrow> exn + pyval"
  and process_items :: "(string \<times> pyval) list \<Rightarrow> exn + (string \<times> pyval) list"
  and process_list :: "pyval list \<Rightarrow> exn + pyval list" where
  "process_recursive (PDict kvs) =
     (case map_of kvs ''to_world'' of
        None \<Rightarrow>
          (case process_items kvs of Inl e \<Rightarrow> Inl e | Inr kvs' \<Rightarrow> Inr (PDict kvs'))
      | Some to_world \<Rightarrow>
          if is_list to_world \<or> is_dict to_world then
            (case convert_to_world to_world of
               Inl e \<Rightarrow> Inl e
             | Inr t \<Rightarrow>
                 (case process_items kvs of
                    Inl e \<Rightarrow> Inl e
                  | Inr kvs' \<Rightarrow> Inr (PDict (dict_set ''to_world'' t kvs'))))
          else
            (case process_items kvs of Inl e \<Rightarrow> Inl e | Inr kvs' \<Rightarrow> Inr (PDict kvs')))"
| "process_recursive (PList xs) =
     (case process_list xs of Inl e \<Rightarrow> Inl e | Inr xs' \<Rightarrow> Inr (PList xs'))"
| "process_recursive PNone = Inr PNone"
| "process_recursive (PBool b) = Inr (PBool b)"
| "process_recursive (PInt i) = Inr (PInt i)"
| "process_recursive (PFloat x) = Inr (PFloat x)"
| "process_recursive (PStr s) = Inr (PStr s)"
| "process_recursive (PTuple xs) = Inr (PTuple xs)"
| "process_recursive (PTransform t) = Inr (PTransform t)"
| "process_items [] = Inr []"
| "process_items ((k, v) # kvs) =
     (if k = ''to_world'' then
        (case process_items kvs of Inl e \<Rightarrow> Inl e | Inr kvs' \<Rightarrow> Inr ((k, v) # kvs'))
      else
        (case process_recursive v of
           Inl e \<Rightarrow> Inl e
         | Inr v' \<Rightarrow>
             (case process_items kvs of Inl e \<Rightarrow> Inl e | Inr kvs' \<Rightarrow> Inr ((k, v') # kvs'))))"
| "process_list [] = Inr []"
| "process_list (x # xs) =
     (case process_recursive x of
        Inl e \<Rightarrow> Inl e
      | Inr x' \<Rightarrow> (case process_list xs of Inl e \<Rightarrow> Inl e | Inr xs' \<Rightarrow> Inr (x' # xs')))"

text \<open>\<open>copy.deepcopy\<close> of a value without identity is the value.\<close>

definition deepcopy :: "pyval \<Rightarrow> pyval" where
  "deepcopy v = v"

definition preprocess_transforms :: "pyval \<Rightarrow> exn + pyval" where
  "preprocess_transforms scene_dict = process_recursive (deepcopy scene_dict)"


subsection \<open>\<open>renderer.py\<close>\<close>

text \<open>\<open>RenderWorker._build_transform_from_dict\<close>, before the child is composed: the
  branches are \<open>translate\<close>, \<open>scale\<close>, \<open>rotate\<close> and the identity default.\<close>

definition transform_from_type :: "pyval \<Rightarrow> pyval transform" where
  "transform_from_type d =
     (let get = (\<lambda>key dflt. case dict_get d key dflt of Inr v \<Rightarrow> v | Inl _ \<Rightarrow> dflt);
          transform_type = get ''type'' (PStr ''identity'')
      in if transform_type = PStr ''translate'' then
           Translate (get ''value'' (PList [PInt 0, PInt 0, PInt 0]))
         else if transform_type = PStr ''scale'' then
           (let v = get ''value'' (PFloat 1)
            in if is_number v then Scale (PList [v, v, v]) else Scale v)
         else if transform_type = PStr ''rotate'' then
           Rotate (get ''axis'' (PList [PInt 0, PInt 0, PInt 1])) (get ''angle'' (PFloat 0))
         else Identity)"

fun build_transform_from_dict :: "pyval \<Rightarrow> exn + pyval transform"
  and first_child_from_dict :: "(string \<times> pyval) list \<Rightarrow> (exn + pyval transform) option" where
  "build_transform_from_dict (PDict kvs) =
     (case first_child_from_dict kvs of
        None \<Rightarrow> Inr (transform_from_type (PDict kvs))
      | Some (Inl e) \<Rightarrow> Inl e
      | Some (Inr child_transform) \<Rightarrow>
          Inr (Compose (transform_from_type (PDict kvs)) child_transform))"
| "build_transform_from_dict PNone = Inl AttributeError"
| "build_transform_from_dict (PBool _) = Inl AttributeError"
| "build_transform_from_dict (PInt _) = Inl AttributeError"
| "build_transform_from_dict (PFloat _) = Inl AttributeError"
| "build_transform_from_dict (PStr _) = Inl AttributeError"
| "build_transform_from_dict (PList _) = Inl AttributeError"
| "build_transform_from_dict (PTuple _) = Inl AttributeError"
| "build_transform_from_dict (PTransform _) = Inl AttributeError"
| "first_child_from_dict [] = None"
| "first_child_from_dict ((k, v) # kvs) =
     (if k = ''child'' then Some (build_transform_from_dict v)
      else first_child_from_dict kvs)"

definition convert_to_world_worker :: "pyval \<Rightarrow> exn + pyval" where
  "convert_to_world_worker to_world =
     (case to_world of
        PList items \<Rightarrow>
          (case items of
             [] \<Rightarrow> Inl IndexError
           | first # _ \<Rightarrow>
               if is_list first then Inr (PTransform (FromMatrix to_world))
               else Inr (PTransform (FromFlat to_world)))
      | PDict _ \<Rightarrow>
          (case build_transform_from_dict to_world of
             Inl e \<Rightarrow> Inl e
           | Inr t \<Rightarrow> Inr (PTransform t))
      | _ \<Rightarrow> Inr to_world)"

fun process_transforms_recursive :: "pyval \<Rightarrow> exn + pyval"
  and process_transforms_items :: "(string \<times> pyval) list \<Rightarrow> exn + (string \<times> pyval) list"
  and process_transforms_list :: "pyval list \<Rightarrow> exn + pyval list" where
  "process_transforms_recursive (PDict kvs) =
     (case map_of kvs ''to_world'' of
        None \<Rightarrow>
          (case process_transforms_items kvs of
             Inl e \<Rightarrow> Inl e
           | Inr kvs' \<Rightarrow> Inr (PDict kvs'))
      | Some to_world \<Rightarrow>
          if is_list to_world \<or> is_dict to_world then
            (case convert_to_world_worker to_world of
               Inl e \<Rightarrow> Inl e
             | Inr t \<Rightarrow>
                 (case process_transforms_items kvs of
                    Inl e \<Rightarrow> Inl e
                  | Inr kvs' \<Rightarrow> Inr (PDict (dict_set ''to_world'' t kvs'))))
          else
            (case process_transforms_items kvs of
               Inl e \<Rightarrow> Inl e
             | Inr kvs' \<Rightarrow> Inr (PDict kvs')))"
| "process_transforms_recursive (PList xs) =
     (case process_transforms_list xs of Inl e \<Rightarrow> Inl e | Inr xs' \<Rightarrow> Inr (PList xs'))"
| "process_transforms_recursive PNone = Inr PNone"
| "process_transforms_recursive (PBool b) = Inr (PBool b)"
| "process_transforms_recursive (PInt i) = Inr (PInt i)"
| "process_transforms_recursive (PFloat x) = Inr (PFloat x)"
| "process_transforms_recursive (PStr s) = Inr (PStr s)"
| "process_transforms_recursive (PTuple xs) = Inr (PTuple xs)"
| "process_transforms_recursive (PTransform t) = Inr (PTransform t)"
| "process_transforms_items [] = Inr []"
| "process_transforms_items ((k, v) # kvs) =
     (if k = ''to_world'' then
        (case process_transforms_items kvs of
           Inl e \<Rightarrow> Inl e
         | Inr kvs' \<Rightarrow> Inr ((k, v) # kvs'))
      else
        (case process_transforms_recursive v of
           Inl e \<Rightarrow> Inl e
         | Inr v' \<Rightarrow>
             (case process_transforms_items kvs of
                Inl e \<Rightarrow> Inl e
              | Inr kvs' \<Rightarrow> Inr ((k, v') # kvs'))))"
| "process_transforms_list [] = Inr []"
| "process_transforms_list (x # xs) =
     (case process_transforms_recursive x of
        Inl e \<Rightarrow> Inl e
      | Inr x' \<Rightarrow>
          (case process_transforms_list xs of
             Inl e \<Rightarrow> Inl e
           | Inr xs' \<Rightarrow> Inr (x' # xs')))"

definition preprocess_scene_dict :: "pyval \<Rightarrow> exn + pyval" where
  "preprocess_scene_dict scene_dict = process_transforms_recursive (deepcopy scene_dict)"

section \<open>\<open>BasicSceneGenerator.generate\<close>\<close>






section \<open>The child process: \<open>render_subprocess.py\<close>\<close>

text \<open>
  A formatted string is the list of its parts.  \<open>Uni\<close> is one character by its code
  point, \<open>Val\<close> the text of a value, \<open>Err\<close> the text \<open>str(e)\<close> of an exception,
  and \<open>Clock\<close> the time of day when the line is printed.
\<close>

datatype part = Lit string | Uni nat | Val pyval | Err exn | Clock

type_synonym fstring = "part list"

text \<open>
  What one run of the child does: the lines it prints and the calls it makes into the
  renderer, the image library and the file system, in order.  A \<open>print\<close> that raises
  has written nothing of its line when it returns, and is recorded as
  \<open>Print_raised\<close>.
\<close>

datatype ('scene, 'image) event =
    Stdout fstring
  | Stderr fstring
  | Traceback exn             \<comment> \<open>what \<open>traceback.print_exc()\<close> prints\<close>
  | Print_raised exn
  | Set_variant pyval
  | Load_dict pyval
  | Render 'scene pyval       \<comment> \<open>\<open>mi.render(scene, spp=spp)\<close>\<close>
  | Save 'image string
  | Unlink string

text \<open>
  The outcome of each call that can raise.  \<open>write_stdout\<close> is
  \<open>print(line, flush=True)\<close>, \<open>write_stderr\<close> is \<open>print(line, file=sys.stderr)\<close>;
  the lines one run prints differ from each other, so the line stands for the moment of
  the call.  \<open>load_pickle\<close> opens the file and unpickles it; \<open>save_png\<close> is
  everything from \<open>mi.Bitmap(image)\<close> to \<open>img.save(output_file)\<close>.
  \<open>exit_flush_fails\<close> tells whether the interpreter, flushing the standard streams
  when it exits, fails to write what a \<open>print\<close> that raised has left in a buffer.
\<close>

record ('scene, 'image) child_env =
  write_stdout :: "fstring \<Rightarrow> exn option"
  write_stderr :: "fstring \<Rightarrow> exn option"
  print_exc :: "exn \<Rightarrow> exn option"
  exit_flush_fails :: bool
  import_mitsuba :: "exn option"
  load_pickle :: "string \<Rightarrow> exn + pyval"
  set_variant :: "pyval \<Rightarrow> exn option"
  load_dict :: "pyval \<Rightarrow> exn + 'scene"
  render :: "'scene \<Rightarrow> pyval \<Rightarrow> exn + 'image"
  save_png :: "'image \<Rightarrow> string \<Rightarrow> exn option"
  unlink :: "string \<Rightarrow> exn option"

record ('scene, 'image) run =
  exit_code :: int
  trace :: "('scene, 'image) event list"

text \<open>
  A piece of the \<open>try\<close> block: the events it has added, and the exception it has
  raised, if it has.
\<close>

type_synonym ('scene, 'image) steps = "('scene, 'image) event list \<times> exn option"

text \<open>One statement after another: the second is not reached when the first
  raises.\<close>

definition then_do ::
  "('scene, 'image) steps \<Rightarrow> ('scene, 'image) steps \<Rightarrow> ('scene, 'image) steps" where
  "then_do first rest =
     (case snd first of
        Some e \<Rightarrow> first
      | None \<Rightarrow> (fst first @ fst rest, snd rest))"

text \<open>An assignment \<open>x = call(...)\<close>: the events of the call, its outcome, and the
  statements that follow with the value.\<close>

definition then_with ::
  "('scene, 'image) event list \<Rightarrow> exn + 'a \<Rightarrow> ('a \<Rightarrow> ('scene, 'image) steps)
     \<Rightarrow> ('scene, 'image) steps" where
  "then_with evs outcome rest =
     (case outcome of
        Inl e \<Rightarrow> (evs, Some e)
      | Inr v \<Rightarrow> then_do (evs, None) (rest v))"

definition print_stdout ::
  "('scene, 'image) child_env \<Rightarrow> fstring \<Rightarrow> ('scene, 'image) steps" where
  "print_stdout env line =
     (case write_stdout env line of
        None \<Rightarrow> ([Stdout line], None)
      | Some e \<Rightarrow> ([Print_raised e], Some e))"

text \<open>The lines of \<open>log\<close> and \<open>progress\<close>.\<close>

definition log_line :: "fstring \<Rightarrow> fstring" where
  "log_line message = [Lit ''LOG:['', Clock, Lit ''] ''] @ message"

definition progress_line :: "int \<Rightarrow> fstring" where
  "progress_line v = [Lit ''PROGRESS:'', Val (PInt v)]"

definition log :: "('scene, 'image) child_env \<Rightarrow> fstring \<Rightarrow> ('scene, 'image) steps" where
  "log env message = print_stdout env (log_line message)"

definition progress :: "('scene, 'image) child_env \<Rightarrow> int \<Rightarrow> ('scene, 'image) steps" where
  "progress env v = print_stdout env (progress_line v)"

text \<open>Lines 41 to 45: the pickled data and its two entries.\<close>

definition load_scene_data ::
  "('scene, 'image) child_env \<Rightarrow> string \<Rightarrow> exn + (pyval \<times> pyval)" where
  "load_scene_data env scene_file =
     (case load_pickle env scene_file of
        Inl e \<Rightarrow> Inl e
      | Inr data \<Rightarrow>
          (case subscript data ''scene_dict'' of
             Inl e \<Rightarrow> Inl e
           | Inr scene_dict \<Rightarrow>
               (case subscript data ''params'' of
                  Inl e \<Rightarrow> Inl e
                | Inr params \<Rightarrow> Inr (scene_dict, params))))"

text \<open>
  The \<open>try\<close> block of \<open>main\<close> in four parts, the last first: saving (lines 69 to
  95), rendering (lines 64 to 68), preprocessing and loading the scene (lines 51 to 61),
  and the start (lines 36 to 50).
\<close>

definition save_stage ::
  "('scene, 'image) child_env \<Rightarrow> 'image \<Rightarrow> string \<Rightarrow> string \<Rightarrow> ('scene, 'image) steps" where
  "save_stage env img scene_file output_file =
     then_do (progress env 80)
    (then_do (log env [Lit ''Saving image...''])
    (then_do ([Save img output_file], save_png env img output_file)
    (then_do (progress env 100)
    (then_do (log env [Lit ''Render complete: '', Lit output_file])
             ([Unlink scene_file], unlink env scene_file)))))"

definition render_stage ::
  "('scene, 'image) child_env \<Rightarrow> 'scene \<Rightarrow> pyval \<Rightarrow> string \<Rightarrow> string
     \<Rightarrow> ('scene, 'image) steps" where
  "render_stage env scene params scene_file output_file =
     then_with [] (dict_get params ''spp'' (PInt 256)) (\<lambda>spp.
     then_do (log env [Lit ''Rendering ('', Val spp, Lit '' spp)...''])
    (then_do (progress env 30)
    (then_with [Render scene spp] (render env scene spp) (\<lambda>img.
     save_stage env img scene_file output_file))))"

definition load_stage ::
  "('scene, 'image) child_env \<Rightarrow> pyval \<Rightarrow> pyval \<Rightarrow> string \<Rightarrow> string
     \<Rightarrow> ('scene, 'image) steps" where
  "load_stage env scene_dict params scene_file output_file =
     then_do (progress env 5)
    (then_do (log env [Lit ''Preprocessing scene...''])
    (then_with [] (preprocess_transforms scene_dict) (\<lambda>processed.
     then_do (progress env 10)
    (then_do (log env [Lit ''Loading scene...''])
    (then_with [Load_dict processed] (load_dict env processed) (\<lambda>scene.
     then_do (progress env 20)
     (render_stage env scene params scene_file output_file)))))))"

definition try_block ::
  "('scene, 'image) child_env \<Rightarrow> string \<Rightarrow> string \<Rightarrow> ('scene, 'image) steps" where
  "try_block env scene_file output_file =
     then_do (log env [Lit ''Importing Mitsuba...''])
    (then_do ([], import_mitsuba env)
    (then_do (log env [Lit ''Loading scene data...''])
    (then_with [] (load_scene_data env scene_file) (\<lambda>data.
     then_with [] (dict_get (snd data) ''variant'' (PStr ''scalar_rgb'')) (\<lambda>variant.
     then_do (log env [Lit ''Setting variant: '', Val variant])
    (then_do ([Set_variant variant], set_variant env variant)
     (load_stage env (fst data) (snd data) scene_file output_file)))))))"

text \<open>
  The \<open>except Exception\<close> branch, up to its \<open>sys.exit(1)\<close>.  When one of its two
  prints raises, the exception leaves \<open>main\<close>.
\<close>

definition except_handler ::
  "('scene, 'image) child_env \<Rightarrow> exn \<Rightarrow> ('scene, 'image) event list" where
  "except_handler env e =
     (case write_stderr env [Lit ''ERROR:'', Err e] of
        Some raised \<Rightarrow> [Print_raised raised]
      | None \<Rightarrow>
          Stderr [Lit ''ERROR:'', Err e] #
          (case print_exc env e of
             Some raised \<Rightarrow> [Print_raised raised]
           | None \<Rightarrow> [Traceback e]))"

definition print_raised :: "('scene, 'image) event list \<Rightarrow> bool" where
  "print_raised t = list_ex (\<lambda>ev. case ev of Print_raised e \<Rightarrow> True | _ \<Rightarrow> False) t"

text \<open>
  The end of the process: with \<open>sys.exit(status)\<close>, or with code 1 after an exception
  that nothing caught.  The interpreter then flushes the standard streams, and the exit
  code is 120 when that fails.
\<close>

definition exit_with ::
  "('scene, 'image) child_env \<Rightarrow> ('scene, 'image) event list \<Rightarrow> int \<Rightarrow> ('scene, 'image) run" where
  "exit_with env t status =
     \<lparr>exit_code = (if print_raised t \<and> exit_flush_fails env then 120 else status),
      trace = t\<rparr>"

text \<open>\<open>main\<close>, with \<open>sys.argv\<close> as its argument.  \<open>sys.exit(0)\<close> raises
  \<open>SystemExit\<close>, which \<open>except Exception\<close> does not catch.\<close>

definition main :: "('scene, 'image) child_env \<Rightarrow> string list \<Rightarrow> ('scene, 'image) run" where
  "main env argv =
     (if length argv \<noteq> 3 then
        (case write_stderr env [Lit ''ERROR:Invalid arguments''] of
           None \<Rightarrow> exit_with env [Stderr [Lit ''ERROR:Invalid arguments'']] 1
         | Some raised \<Rightarrow> exit_with env [Print_raised raised] 1)
      else
        (case try_block env (argv ! 1) (argv ! 2) of
           (t, None) \<Rightarrow> exit_with env t 0
         | (t, Some e) \<Rightarrow> exit_with env (t @ except_handler env e) 1))"

text \<open>The values printed with the \<open>PROGRESS:\<close> tag, in order.\<close>

definition int_part :: "part \<Rightarrow> int option" where
  "int_part p = (case p of Val v \<Rightarrow> (case v of PInt i \<Rightarrow> Some i | _ \<Rightarrow> None) | _ \<Rightarrow> None)"

definition progress_value :: "('scene, 'image) event \<Rightarrow> int option" where
  "progress_value ev =
     (case ev of
        Stdout line \<Rightarrow>
          (case line of
             [tag, p] \<Rightarrow> if tag = Lit ''PROGRESS:'' then int_part p else None
           | _ \<Rightarrow> None)
      | _ \<Rightarrow> None)"

definition progress_values :: "('scene, 'image) event list \<Rightarrow> int list" where
  "progress_values tr = List.map_filter progress_value tr"

text \<open>The \<open>spp\<close> arguments of the calls of \<open>mi.render\<close>, in order.\<close>

fun render_spp :: "('scene, 'image) event \<Rightarrow> pyval option" where
  "render_spp (Render scene spp) = Some spp"
| "render_spp _ = None"

definition rendered_spp :: "('scene, 'image) event list \<Rightarrow> pyval list" where
  "rendered_spp tr = List.map_filter render_spp tr"


section \<open>The parent: \<open>SubprocessRenderer\<close>\<close>

datatype process_state = NotRunning | Starting | Running

record qprocess =
  state :: process_state
  program :: string
  arguments :: "string list"
  exitCode :: int

record renderer =
  output_dir :: string
  process :: "qprocess option"
  temp_files :: "string list"

datatype 'image signal =
    Progress_updated int
  | Log_message fstring
  | Render_complete 'image string
  | Render_failed fstring

text \<open>
  What the parent's surroundings decide: the name \<open>NamedTemporaryFile\<close> gives the new
  file, the bytes \<open>pickle.dump\<close> writes (and the exception, if it raises), the text of
  \<open>output_dir / output_filename\<close>, the interpreter and the script, the answers of
  \<open>waitForStarted\<close> and \<open>waitForFinished\<close>, the state of a started process, the last
  component of a path, and the outcome of opening an image.
\<close>

record ('bytes, 'image) parent_env =
  named_temporary_file :: "exn + string"
  pickle_dump :: "pyval \<Rightarrow> exn option \<times> 'bytes"
  path_join :: "string \<Rightarrow> string \<Rightarrow> string"
  sys_executable :: string
  script_path :: string
  wait_for_started :: bool
  state_after_start :: process_state
  finished_after_terminate :: bool
  finished_after_kill :: bool
  path_name :: "string \<Rightarrow> string"
  open_image :: "string \<Rightarrow> exn + 'image"

definition is_running :: "renderer \<Rightarrow> bool" where
  "is_running r = (case process r of None \<Rightarrow> False | Some p \<Rightarrow> state p = Running)"

definition already_in_progress :: fstring where
  "already_in_progress = [Uni 0x26A0, Uni 0xFE0F, Lit ''  Render already in progress'']"

text \<open>The \<open>except Exception\<close> branch of \<open>render_scene\<close>.\<close>

definition start_failed :: "exn \<Rightarrow> 'image signal list" where
  "start_failed e =
     [Log_message [Uni 0x274C, Lit '' Failed to start render: '', Err e], Render_failed [Err e]]"

text \<open>\<open>render_scene\<close>: the renderer and the files before, the renderer and the files
  after, and the signals emitted.\<close>

definition render_scene ::
  "('bytes, 'image) parent_env \<Rightarrow> renderer \<Rightarrow> (string \<rightharpoonup> 'bytes) \<Rightarrow> pyval \<Rightarrow> pyval \<Rightarrow> string
     \<Rightarrow> renderer \<times> (string \<rightharpoonup> 'bytes) \<times> 'image signal list" where
  "render_scene env r files scene_dict params output_filename =
     (if is_running r then (r, files, [Log_message already_in_progress])
      else
        case named_temporary_file env of
          Inl e \<Rightarrow> (r, files, start_failed e)
        | Inr name \<Rightarrow>
            (case pickle_dump env (PDict [(''scene_dict'', scene_dict), (''params'', params)]) of
               (Some e, written) \<Rightarrow> (r, files(name \<mapsto> written), start_failed e)
             | (None, written) \<Rightarrow>
                 let output_path = path_join env (output_dir r) output_filename;
                     child = \<lparr>state = state_after_start env,
                              program = sys_executable env,
                              arguments = [script_path env, name, output_path],
                              exitCode = 0\<rparr>;
                     r' = r\<lparr>temp_files := temp_files r @ [name], process := Some child\<rparr>;
                     started = [Log_message [Uni 0x1F680, Lit '' Starting render process...'']]
                 in if wait_for_started env then (r', files(name \<mapsto> written), started)
                    else (r', files(name \<mapsto> written),
                          started @ start_failed (Raised ''Failed to start render process''))))"









section \<open>The two message tags\<close>



text \<open>A renderer with no process, and one whose child is running.\<close>

definition idle_renderer :: renderer where
  "idle_renderer = \<lparr>output_dir = ''output'', process = None, temp_files = []\<rparr>"












subsection \<open>What \<open>strip_ansi_codes\<close> removes\<close>

















section \<open>Runs of the child\<close>

text \<open>A line on the standard error stream that starts with \<open>ERROR:\<close>.\<close>

definition error_line :: "('scene, 'image) event \<Rightarrow> bool" where
  "error_line ev =
     (case ev of
        Stderr line \<Rightarrow> (case line of Lit s # _ \<Rightarrow> startswith s ''ERROR:'' | _ \<Rightarrow> False)
      | _ \<Rightarrow> False)"

definition has_error_line :: "('scene, 'image) run \<Rightarrow> bool" where
  "has_error_line r = list_ex error_line (trace r)"

text \<open>
  The lines a run prints on the standard output when nothing raises, with the variant
  and the number of samples it reads from the parameters.
\<close>

definition success_lines :: "pyval \<Rightarrow> pyval \<Rightarrow> string \<Rightarrow> fstring list" where
  "success_lines variant spp output_file =
     [log_line [Lit ''Importing Mitsuba...''],
      log_line [Lit ''Loading scene data...''],
      log_line [Lit ''Setting variant: '', Val variant],
      progress_line 5,
      log_line [Lit ''Preprocessing scene...''],
      progress_line 10,
      log_line [Lit ''Loading scene...''],
      progress_line 20,
      log_line [Lit ''Rendering ('', Val spp, Lit '' spp)...''],
      progress_line 30,
      progress_line 80,
      log_line [Lit ''Saving image...''],
      progress_line 100,
      log_line [Lit ''Render complete: '', Lit output_file]]"

text \<open>
  Every step of the \<open>try\<close> block succeeds: the import, reading the pickled data and
  its two entries, setting the variant, preprocessing, loading the scene, rendering,
  saving the image, removing the scene file, and every print.
\<close>

definition run_succeeds :: "('scene, 'image) child_env \<Rightarrow> string \<Rightarrow> string \<Rightarrow> bool" where
  "run_succeeds env scene_file output_file =
     (import_mitsuba env = None \<and>
      (case load_scene_data env scene_file of
         Inl e \<Rightarrow> False
       | Inr data \<Rightarrow>
      (case dict_get (snd data) ''variant'' (PStr ''scalar_rgb'') of
         Inl e \<Rightarrow> False
       | Inr variant \<Rightarrow>
      set_variant env variant = None \<and>
      (case preprocess_transforms (fst data) of
         Inl e \<Rightarrow> False
       | Inr processed \<Rightarrow>
      (case load_dict env processed of
         Inl e \<Rightarrow> False
       | Inr scene \<Rightarrow>
      (case dict_get (snd data) ''spp'' (PInt 256) of
         Inl e \<Rightarrow> False
       | Inr spp \<Rightarrow>
      (case render env scene spp of
         Inl e \<Rightarrow> False
       | Inr img \<Rightarrow>
           save_png env img output_file = None \<and> unlink env scene_file = None
           \<and> list_all (\<lambda>line. write_stdout env line = None)
                (success_lines variant spp output_file))))))))"

text \<open>An environment in which every step succeeds; one in which only the removal of
  the scene file fails; one without \<open>spp\<close> among the parameters; one in which the
  standard output is a pipe nobody reads any more; and a command line.\<close>

definition example_data :: pyval where
  "example_data =
     PDict [(''scene_dict'', PDict [(''type'', PStr ''scene'')]),
            (''params'', PDict [(''spp'', PInt 64)])]"

definition ok_env :: "(unit, unit) child_env" where
  "ok_env =
     \<lparr>write_stdout = (\<lambda>line. None),
      write_stderr = (\<lambda>line. None),
      print_exc = (\<lambda>e. None),
      exit_flush_fails = False,
      import_mitsuba = None,
      load_pickle = (\<lambda>scene_file. Inr example_data),
      set_variant = (\<lambda>variant. None),
      load_dict = (\<lambda>scene_dict. Inr ()),
      render = (\<lambda>scene spp. Inr ()),
      save_png = (\<lambda>img output_file. None),
      unlink = (\<lambda>scene_file. None)\<rparr>"

definition unlink_fails_env :: "(unit, unit) child_env" where
  "unlink_fails_env = ok_env\<lparr>unlink := (\<lambda>scene_file. Some (Raised ''PermissionError''))\<rparr>"

definition no_spp_env :: "(unit, unit) child_env" where
  "no_spp_env =
     ok_env\<lparr>load_pickle :=
       (\<lambda>scene_file. Inr (PDict [(''scene_dict'', PDict []), (''params'', PDict [])]))\<rparr>"

definition broken_pipe_env :: "(unit, unit) child_env" where
  "broken_pipe_env =
     ok_env\<lparr>write_stdout := (\<lambda>line. Some (Raised ''BrokenPipeError'')),
            exit_flush_fails := True\<rparr>"

definition example_argv :: "string list" where
  "example_argv = [''render_subprocess.py'', ''scene.pkl'', ''render.png'']"

subsection \<open>Statements in sequence\<close>

lemma then_do_simps [simp]:
  "snd (then_do a b) = (case snd a of Some e \<Rightarrow> Some e | None \<Rightarrow> snd b)"
  "fst (then_do a b) = (if snd a = None then fst a @ fst b else fst a)"
  by (simp_all add: then_do_def split: option.splits)

lemma then_with_simps [simp]:
  "snd (then_with evs r k) = (case r of Inl e \<Rightarrow> Some e | Inr v \<Rightarrow> snd (k v))"
  "fst (then_with evs r k) = (case r of Inl e \<Rightarrow> evs | Inr v \<Rightarrow> evs @ fst (k v))"
  by (simp_all add: then_with_def split: sum.splits)

lemma print_stdout_simps [simp]:
  "snd (print_stdout env line) = write_stdout env line"
  "fst (print_stdout env line) =
     (case write_stdout env line of None \<Rightarrow> [Stdout line] | Some e \<Rightarrow> [Print_raised e])"
  by (simp_all add: print_stdout_def split: option.splits)

lemma progress_value_simps [simp]:
  "progress_value (Stdout (progress_line v)) = Some v"
  "progress_value (Stdout (log_line m)) = None"
  "progress_value (Stderr l) = None"
  "progress_value (Traceback e) = None"
  "progress_value (Print_raised e) = None"
  "progress_value (Set_variant x) = None"
  "progress_value (Load_dict x) = None"
  "progress_value (Render sc x) = None"
  "progress_value (Save im f) = None"
  "progress_value (Unlink f) = None"
  by (simp_all add: progress_value_def progress_line_def log_line_def int_part_def)

lemma progress_values_simps [simp]:
  "progress_values [] = []"
  "progress_values (ev # tr) =
     (case progress_value ev of None \<Rightarrow> progress_values tr | Some v \<Rightarrow> v # progress_values tr)"
  "progress_values (tr @ tr') = progress_values tr @ progress_values tr'"
  by (simp_all add: progress_values_def List.map_filter_def split: option.splits)

lemma rendered_spp_simps [simp]:
  "rendered_spp [] = []"
  "rendered_spp (ev # tr) =
     (case render_spp ev of None \<Rightarrow> rendered_spp tr | Some v \<Rightarrow> v # rendered_spp tr)"
  "rendered_spp (tr @ tr') = rendered_spp tr @ rendered_spp tr'"
  by (simp_all add: rendered_spp_def List.map_filter_def split: option.splits)

lemma print_raised_simps [simp]:
  "print_raised [] = False"
  "print_raised (ev # tr) =
     ((case ev of Print_raised e \<Rightarrow> True | _ \<Rightarrow> False) \<or> print_raised tr)"
  "print_raised (tr @ tr') = (print_raised tr \<or> print_raised tr')"
  by (simp_all add: print_raised_def)

lemma has_error_line_simps [simp]:
  "has_error_line \<lparr>exit_code = c, trace = t\<rparr> = list_ex error_line t"
  by (simp add: has_error_line_def)

lemma error_line_simps [simp]:
  "error_line (Stderr [Lit ''ERROR:'', Err e])"
  "error_line (Stderr [Lit ''ERROR:Invalid arguments''])"
  by (simp_all add: error_line_def startswith_def)

text \<open>The events of a print.\<close>

lemma print_events:
  "progress_values (fst (log env m)) = []"
  "progress_values (fst (progress env v)) =
     (if write_stdout env (progress_line v) = None then [v] else [])"
  "rendered_spp (fst (log env m)) = []"
  "rendered_spp (fst (progress env v)) = []"
  "print_raised (fst (log env m)) \<longleftrightarrow> snd (log env m) \<noteq> None"
  "print_raised (fst (progress env v)) \<longleftrightarrow> snd (progress env v) \<noteq> None"
  "snd (log env m) = write_stdout env (log_line m)"
  "snd (progress env v) = write_stdout env (progress_line v)"
  by (auto simp: log_def progress_def split: option.splits)

subsection \<open>The progress values of a block\<close>

text \<open>A block prints the values \<open>vs\<close>: an initial part of them in any case, all of
  them when it does not raise.\<close>

definition emits :: "('scene, 'image) steps \<Rightarrow> int list \<Rightarrow> bool" where
  "emits b vs =
     (prefix (progress_values (fst b)) vs \<and> (snd b = None \<longrightarrow> progress_values (fst b) = vs))"

lemma emits_progress: "emits b vs \<Longrightarrow> emits (then_do (progress env v) b) (v # vs)"
  by (auto simp: emits_def print_events)

lemma emits_log: "emits b vs \<Longrightarrow> emits (then_do (log env m) b) vs"
  by (auto simp: emits_def print_events)

lemma emits_call:
  "progress_values evs = [] \<Longrightarrow> emits b vs \<Longrightarrow> emits (then_do (evs, r) b) vs"
  by (auto simp: emits_def)

lemma emits_with:
  "progress_values evs = [] \<Longrightarrow> (\<And>v. emits (k v) vs) \<Longrightarrow> emits (then_with evs r k) vs"
  by (auto simp: emits_def split: sum.splits)

lemma emits_end: "progress_values evs = [] \<Longrightarrow> emits (evs, r) []"
  by (simp add: emits_def)

lemmas emits_intros = emits_progress emits_log emits_call emits_with emits_end

lemma save_stage_emits: "emits (save_stage env img sf outf) [80, 100]"
  unfolding save_stage_def by (intro emits_intros; simp)

lemma render_stage_emits: "emits (render_stage env scene params sf outf) [30, 80, 100]"
  unfolding render_stage_def by (intro emits_intros save_stage_emits; simp)

lemma load_stage_emits:
  "emits (load_stage env sd params sf outf) [5, 10, 20, 30, 80, 100]"
  unfolding load_stage_def by (intro emits_intros render_stage_emits; simp)

lemma try_block_emits: "emits (try_block env sf outf) [5, 10, 20, 30, 80, 100]"
  unfolding try_block_def by (intro emits_intros load_stage_emits; simp)

subsection \<open>The calls of the renderer in a block\<close>

text \<open>A block that neither calls \<open>mi.render\<close> nor prints the progress value 30, and
  a block that calls \<open>mi.render\<close> exactly after printing it.\<close>

definition quiet :: "('scene, 'image) steps \<Rightarrow> bool" where
  "quiet b = (rendered_spp (fst b) = [] \<and> 30 \<notin> set (progress_values (fst b)))"

definition renders :: "('scene, 'image) steps \<Rightarrow> pyval \<Rightarrow> bool" where
  "renders b spp =
     (rendered_spp (fst b) = (if 30 \<in> set (progress_values (fst b)) then [spp] else []))"

lemma quiet_then_do: "quiet a \<Longrightarrow> quiet b \<Longrightarrow> quiet (then_do a b)"
  by (auto simp: quiet_def)

lemma quiet_log: "quiet (log env m)"
  by (simp add: quiet_def print_events)

lemma quiet_progress: "v \<noteq> 30 \<Longrightarrow> quiet (progress env v)"
  by (simp add: quiet_def print_events)

lemma quiet_call: "rendered_spp evs = [] \<Longrightarrow> progress_values evs = [] \<Longrightarrow> quiet (evs, r)"
  by (simp add: quiet_def)

lemmas quiet_intros = quiet_then_do quiet_log quiet_progress quiet_call

lemma save_stage_quiet: "quiet (save_stage env img sf outf)"
  unfolding save_stage_def by (intro quiet_intros; simp)

lemma renders_then_do: "quiet a \<Longrightarrow> renders b spp \<Longrightarrow> renders (then_do a b) spp"
  by (auto simp: quiet_def renders_def)

lemma renders_then_with:
  "rendered_spp evs = [] \<Longrightarrow> progress_values evs = [] \<Longrightarrow>
     (\<And>v. r = Inr v \<Longrightarrow> renders (k v) spp) \<Longrightarrow> renders (then_with evs r k) spp"
  by (auto simp: renders_def split: sum.splits)

lemma renders_call:
  "renders (then_do (progress env 30)
     (then_with [Render scene spp] r (\<lambda>img. save_stage env img sf outf))) spp"
  using save_stage_quiet [of env _ sf outf]
  by (auto simp: renders_def quiet_def print_events split: sum.splits)

lemma render_stage_renders:
  "renders (render_stage env scene (PDict params) sf outf)
     (case map_of params ''spp'' of Some v \<Rightarrow> v | None \<Rightarrow> PInt 256)"
  unfolding render_stage_def
  by (rule renders_then_with)
     (auto simp: dict_get_def split: option.splits
           intro!: renders_then_do renders_call quiet_log)

lemma load_stage_renders:
  "renders (load_stage env sd (PDict params) sf outf)
     (case map_of params ''spp'' of Some v \<Rightarrow> v | None \<Rightarrow> PInt 256)"
  unfolding load_stage_def
  by (intro renders_then_do renders_then_with render_stage_renders quiet_intros; simp)

lemma try_block_renders:
  assumes "load_scene_data env sf = Inr (scene_dict, PDict params)"
  shows "renders (try_block env sf outf)
     (case map_of params ''spp'' of Some v \<Rightarrow> v | None \<Rightarrow> PInt 256)"
  unfolding try_block_def
  apply (intro renders_then_do renders_then_with quiet_intros)
  using assms apply (auto simp add: load_stage_renders)
  done

subsection \<open>A print that raised\<close>

text \<open>A block in which a print raised has raised.\<close>

definition tidy :: "('scene, 'image) steps \<Rightarrow> bool" where
  "tidy b = (print_raised (fst b) \<longrightarrow> snd b \<noteq> None)"

lemma tidy_then_do: "tidy a \<Longrightarrow> tidy b \<Longrightarrow> tidy (then_do a b)"
  by (auto simp: tidy_def)

lemma tidy_then_with:
  "\<not> print_raised evs \<Longrightarrow> (\<And>v. tidy (k v)) \<Longrightarrow> tidy (then_with evs r k)"
  by (auto simp: tidy_def split: sum.splits)

lemma tidy_log: "tidy (log env m)"
  by (simp add: tidy_def print_events)

lemma tidy_progress: "tidy (progress env v)"
  by (simp add: tidy_def print_events)

lemma tidy_call: "\<not> print_raised evs \<Longrightarrow> tidy (evs, r)"
  by (simp add: tidy_def)

lemmas tidy_intros = tidy_then_do tidy_then_with tidy_log tidy_progress tidy_call

lemma save_stage_tidy: "tidy (save_stage env img sf outf)"
  unfolding save_stage_def by (intro tidy_intros; simp)

lemma render_stage_tidy: "tidy (render_stage env scene params sf outf)"
  unfolding render_stage_def by (intro tidy_intros save_stage_tidy; simp)

lemma load_stage_tidy: "tidy (load_stage env sd params sf outf)"
  unfolding load_stage_def by (intro tidy_intros render_stage_tidy; simp)

lemma try_block_tidy: "tidy (try_block env sf outf)"
  unfolding try_block_def by (intro tidy_intros load_stage_tidy; simp)

subsection \<open>When a block does not raise\<close>

lemma save_stage_succeeds:
  "snd (save_stage env img sf outf) = None \<longleftrightarrow>
     save_png env img outf = None \<and> unlink env sf = None
     \<and> list_all (\<lambda>line. write_stdout env line = None)
         [progress_line 80, log_line [Lit ''Saving image...''], progress_line 100,
          log_line [Lit ''Render complete: '', Lit outf]]"
  by (auto simp: save_stage_def print_events split: option.splits)

lemma render_stage_succeeds:
  "snd (render_stage env scene params sf outf) = None \<longleftrightarrow>
     (case dict_get params ''spp'' (PInt 256) of
        Inl e \<Rightarrow> False
      | Inr spp \<Rightarrow>
          (case render env scene spp of
             Inl e \<Rightarrow> False
           | Inr img \<Rightarrow>
               snd (save_stage env img sf outf) = None
               \<and> list_all (\<lambda>line. write_stdout env line = None)
                   [log_line [Lit ''Rendering ('', Val spp, Lit '' spp)...''],
                    progress_line 30]))"
  by (auto simp: render_stage_def print_events split: option.splits sum.splits)

lemma load_stage_succeeds:
  "snd (load_stage env sd params sf outf) = None \<longleftrightarrow>
     (case preprocess_transforms sd of
        Inl e \<Rightarrow> False
      | Inr processed \<Rightarrow>
          (case load_dict env processed of
             Inl e \<Rightarrow> False
           | Inr scene \<Rightarrow>
               snd (render_stage env scene params sf outf) = None
               \<and> list_all (\<lambda>line. write_stdout env line = None)
                   [progress_line 5, log_line [Lit ''Preprocessing scene...''],
                    progress_line 10, log_line [Lit ''Loading scene...''], progress_line 20]))"
  by (auto simp: load_stage_def print_events split: option.splits sum.splits)

lemma try_block_succeeds:
  "snd (try_block env sf outf) = None \<longleftrightarrow> run_succeeds env sf outf"
  unfolding run_succeeds_def success_lines_def
  by (auto simp: try_block_def print_events load_stage_succeeds render_stage_succeeds
      save_stage_succeeds split: option.splits sum.splits)

subsection \<open>\<open>main\<close>\<close>

lemma main_unfold:
  "main env argv =
     (if length argv \<noteq> 3 then
        (case write_stderr env [Lit ''ERROR:Invalid arguments''] of
           None \<Rightarrow> exit_with env [Stderr [Lit ''ERROR:Invalid arguments'']] 1
         | Some raised \<Rightarrow> exit_with env [Print_raised raised] 1)
      else
        (case snd (try_block env (argv ! 1) (argv ! 2)) of
           None \<Rightarrow> exit_with env (fst (try_block env (argv ! 1) (argv ! 2))) 0
         | Some e \<Rightarrow>
             exit_with env (fst (try_block env (argv ! 1) (argv ! 2)) @ except_handler env e) 1))"
  by (simp add: main_def split: prod.splits option.splits)

lemma except_handler_events [simp]:
  "progress_values (except_handler env e) = []"
  "rendered_spp (except_handler env e) = []"
  "\<not> print_raised (except_handler env e) \<Longrightarrow> list_ex error_line (except_handler env e)"
  by (auto simp: except_handler_def split: option.splits)

lemma exit_with_simps [simp]:
  "trace (exit_with env t status) = t"
  "exit_code (exit_with env t status) =
     (if print_raised t \<and> exit_flush_fails env then 120 else status)"
  "has_error_line (exit_with env t status) = list_ex error_line t"
  by (simp_all add: exit_with_def)

lemma main_progress_values:
  "progress_values (trace (main env argv)) =
     (if length argv = 3 then progress_values (fst (try_block env (argv ! 1) (argv ! 2))) else [])"
  by (simp add: main_unfold split: option.splits)

lemma main_rendered_spp:
  "rendered_spp (trace (main env argv)) =
     (if length argv = 3 then rendered_spp (fst (try_block env (argv ! 1) (argv ! 2))) else [])"
  by (simp add: main_unfold split: option.splits)

lemma main_exit_code:
  "exit_code (main env argv) =
     (if length argv = 3 \<and> run_succeeds env (argv ! 1) (argv ! 2) then 0
      else if print_raised (trace (main env argv)) \<and> exit_flush_fails env then 120
      else 1)"
  using try_block_tidy [of env "argv ! 1" "argv ! 2"]
    try_block_succeeds [of env "argv ! 1" "argv ! 2"]
  by (auto simp: main_unfold tidy_def split: option.splits)


lemma main_progress_prefix:
  "prefix (progress_values (trace (main env argv))) [5, 10, 20, 30, 80, 100]"
  using try_block_emits [of env "argv ! 1" "argv ! 2"]
  by (simp add: main_progress_values emits_def)

lemma main_full_progress:
  "exit_code (main env argv) = 0 \<longrightarrow>
     progress_values (trace (main env argv)) = [5, 10, 20, 30, 80, 100]"
  using try_block_emits [of env "argv ! 1" "argv ! 2"]
    try_block_succeeds [of env "argv ! 1" "argv ! 2"]
  by (auto simp: main_exit_code main_progress_values emits_def split: if_splits)

lemma main_spp:
  assumes "load_scene_data env (argv ! 1) = Inr (scene_dict, PDict params)"
  shows "rendered_spp (trace (main env argv)) =
     (if 30 \<in> set (progress_values (trace (main env argv)))
      then [case map_of params ''spp'' of Some v \<Rightarrow> v | None \<Rightarrow> PInt 256] else [])"
  using try_block_renders [OF assms, of "argv ! 2"]
  by (simp add: main_progress_values main_rendered_spp renders_def)

text \<open>Evaluating a run in a given environment.\<close>

lemmas run_simps = main_unfold try_block_def load_stage_def render_stage_def save_stage_def
  print_events progress_line_def log_line_def except_handler_def load_scene_data_def
  subscript_def dict_get_def preprocess_transforms_def deepcopy_def example_argv_def
  example_data_def ok_env_def unlink_fails_env_def no_spp_env_def broken_pipe_env_def

text \<open>Surroundings of the parent in which every step succeeds, and a renderer whose
  child has finished with exit code 0.\<close>

definition ok_parent_env :: "(pyval, unit) parent_env" where
  "ok_parent_env =
     \<lparr>named_temporary_file = Inr ''/tmp/tmpscene.pkl'',
      pickle_dump = (\<lambda>obj. (None, obj)),
      path_join = (\<lambda>dir name. dir @ ''/'' @ name),
      sys_executable = ''python'',
      script_path = ''gui/utils/render_subprocess.py'',
      wait_for_started = True,
      state_after_start = Running,
      finished_after_terminate = True,
      finished_after_kill = True,
      path_name = (\<lambda>path. ''render.png''),
      open_image = (\<lambda>path. Inr ())\<rparr>"



section \<open>Exit codes\<close>




section \<open>Samples per pixel\<close>

text \<open>
  C3.  When the pickled data holds a parameter dictionary, the child calls \<open>mi.render\<close>
  at most once, it does so exactly when it has printed the progress value 30 (the
  statement before the call), and the \<open>spp\<close> argument of the call is the value stored
  under \<open>spp\<close> in the dictionary, as it is, or 256 when the key is absent.  A run that
  exits with code 0 has made the call.
\<close>

theorem spp_passed_through:
  assumes "load_scene_data env (argv ! 1) = Inr (scene_dict, PDict params)"
  shows "rendered_spp (trace (main env argv)) =
     (if 30 \<in> set (progress_values (trace (main env argv)))
      then [case map_of params ''spp'' of Some v \<Rightarrow> v | None \<Rightarrow> PInt 256] else [])
   \<and> (exit_code (main env argv) = 0 \<longrightarrow>
        rendered_spp (trace (main env argv)) =
          [case map_of params ''spp'' of Some v \<Rightarrow> v | None \<Rightarrow> PInt 256])"
  using main_spp [OF assms] main_full_progress [of env argv] by simp

theorem spp_passed_through_witness:
  "rendered_spp (trace (main ok_env example_argv)) = [PInt 64]
   \<and> rendered_spp (trace (main no_spp_env example_argv)) = [PInt 256]"
proof -
  have "load_scene_data ok_env (example_argv ! 1)
      = Inr (PDict [(''type'', PStr ''scene'')], PDict [(''spp'', PInt 64)])"
    and "load_scene_data no_spp_env (example_argv ! 1) = Inr (PDict [], PDict [])"
    and "exit_code (main ok_env example_argv) = 0"
    and "exit_code (main no_spp_env example_argv) = 0"
    by (simp_all add: run_simps exit_with_def)
  then show ?thesis
    using spp_passed_through [of ok_env example_argv "PDict [(''type'', PStr ''scene'')]"
        "[(''spp'', PInt 64)]", THEN conjunct2]
      spp_passed_through [of no_spp_env example_argv "PDict []" "[]", THEN conjunct2]
    by simp
qed

section \<open>Progress values\<close>

text \<open>
  C10.  A run of the child that exits with code 0 has printed the progress values 5, 10,
  20, 30, 80, 100, in this order.  The values any run has printed are an initial part
  of this sequence, so they are strictly increasing and lie between 0 and 100.
\<close>

theorem progress_sequence:
  "(exit_code (main env argv) = 0 \<longrightarrow>
      progress_values (trace (main env argv)) = [5, 10, 20, 30, 80, 100])
   \<and> prefix (progress_values (trace (main env argv))) [5, 10, 20, 30, 80, 100]
   \<and> sorted_wrt (<) (progress_values (trace (main env argv)))
   \<and> (\<forall>v \<in> set (progress_values (trace (main env argv))). 0 \<le> v \<and> v \<le> 100)"
proof -
  let ?pv = "progress_values (trace (main env argv))"
  have pre: "prefix ?pv [5, 10, 20, 30, 80, 100]"
    by (rule main_progress_prefix)
  then obtain rest where rest: "[5, 10, 20, 30, 80, 100] = ?pv @ rest"
    by (auto simp: prefix_def)
  have "sorted_wrt (<) (?pv @ rest)"
    unfolding rest [symmetric] by simp
  then have sorted: "sorted_wrt (<) ?pv"
    by (simp add: sorted_wrt_append)
  have "set ?pv \<subseteq> set [5, 10, 20, 30, 80, 100 :: int]"
    unfolding rest by simp
  then have range: "\<forall>v \<in> set ?pv. 0 \<le> v \<and> v \<le> 100"
    by auto
  from pre sorted range main_full_progress [of env argv] show ?thesis
    by blast
qed

theorem progress_sequence_witness:
  "exit_code (main ok_env example_argv) = 0
   \<and> progress_values (trace (main ok_env example_argv)) = [5, 10, 20, 30, 80, 100]
   \<and> progress_values (trace (main unlink_fails_env example_argv)) = [5, 10, 20, 30, 80, 100]
   \<and> progress_values (trace (main broken_pipe_env example_argv)) = []
   \<and> progress_values (trace (main ok_env [])) = []"
proof -
  have "exit_code (main ok_env example_argv) = 0"
    and "progress_values (trace (main unlink_fails_env example_argv)) = [5, 10, 20, 30, 80, 100]"
    and "progress_values (trace (main broken_pipe_env example_argv)) = []"
    and "progress_values (trace (main ok_env [])) = []"
    by (simp_all add: run_simps exit_with_def)
  then show ?thesis
    using progress_sequence [of ok_env example_argv] by simp
qed


section \<open>Handing the scene to the child\<close>

text \<open>\<open>open(scene_file, 'rb')\<close> and \<open>pickle.load(f)\<close> over the files the parent left:
  a missing file raises, an existing one is unpickled.\<close>

definition load_pickle_from ::
  "(string \<rightharpoonup> 'bytes) \<Rightarrow> ('bytes \<Rightarrow> exn + pyval) \<Rightarrow> string \<Rightarrow> exn + pyval" where
  "load_pickle_from files pickle_load scene_file =
     (case files scene_file of
        None \<Rightarrow> Inl (Raised ''FileNotFoundError'')
      | Some content \<Rightarrow> pickle_load content)"

definition reading_env :: "(string \<rightharpoonup> pyval) \<Rightarrow> (unit, unit) child_env" where
  "reading_env files = ok_env\<lparr>load_pickle := load_pickle_from files Inr\<rparr>"

text \<open>
  C4.  Let no render be running, let \<open>NamedTemporaryFile\<close> give a file that did not
  exist, and let \<open>pickle.dump\<close> write without raising bytes that \<open>pickle.load\<close> reads
  back as the object dumped.  Then \<open>render_scene\<close> writes the pickled dictionary with
  exactly the entries \<open>scene_dict\<close> and \<open>params\<close> to that file and to no other,
  records the file's name, and starts the interpreter with the script, the file's name
  and the output path (the output directory joined with the file name) as arguments;
  and a child that reads the files the parent left gets from its first argument the
  same scene dictionary and the same parameters.
\<close>

theorem scene_round_trip:
  assumes "\<not> is_running r"
    and "named_temporary_file penv = Inr name"
    and "name \<notin> dom files"
    and "pickle_dump penv (PDict [(''scene_dict'', scene_dict), (''params'', params)])
           = (None, written)"
    and "pickle_load written = Inr (PDict [(''scene_dict'', scene_dict), (''params'', params)])"
    and "render_scene penv r files scene_dict params output_filename = (r', files', sigs)"
    and "load_pickle cenv = load_pickle_from files' pickle_load"
  shows "\<exists>child. process r' = Some child
           \<and> program child = sys_executable penv
           \<and> arguments child =
               [script_path penv, name, path_join penv (output_dir r) output_filename]
           \<and> temp_files r' = temp_files r @ [name]
           \<and> files' name = Some written
           \<and> (\<forall>other \<in> dom files. files' other = files other)
           \<and> load_scene_data cenv (arguments child ! 1) = Inr (scene_dict, params)"
proof -
  from assms(1,2,4,6) have r': "r' = r\<lparr>temp_files := temp_files r @ [name],
      process := Some \<lparr>state = state_after_start penv, program = sys_executable penv,
        arguments = [script_path penv, name, path_join penv (output_dir r) output_filename],
        exitCode = 0\<rparr>\<rparr>"
    and files': "files' = files(name \<mapsto> written)"
    by (auto simp: render_scene_def Let_def split: if_splits)
  have "load_scene_data cenv name = Inr (scene_dict, params)"
    using assms(5,7) files'
    by (simp add: load_scene_data_def load_pickle_from_def subscript_def)
  with r' files' assms(3) show ?thesis
    by auto
qed

theorem scene_round_trip_witness:
  "(\<exists>child. process (fst (render_scene ok_parent_env idle_renderer Map.empty
                 (PDict [(''type'', PStr ''scene'')]) (PDict [(''spp'', PInt 64)])
                 ''render.png'')) = Some child
      \<and> arguments child =
          [''gui/utils/render_subprocess.py'', ''/tmp/tmpscene.pkl'', ''output/render.png''])
   \<and> load_scene_data
        (reading_env (fst (snd (render_scene ok_parent_env idle_renderer Map.empty
                 (PDict [(''type'', PStr ''scene'')]) (PDict [(''spp'', PInt 64)])
                 ''render.png''))))
        ''/tmp/tmpscene.pkl''
      = Inr (PDict [(''type'', PStr ''scene'')], PDict [(''spp'', PInt 64)])"
  using scene_round_trip [of idle_renderer ok_parent_env "''/tmp/tmpscene.pkl''" Map.empty
      "PDict [(''type'', PStr ''scene'')]" "PDict [(''spp'', PInt 64)]"
      "PDict [(''scene_dict'', PDict [(''type'', PStr ''scene'')]),
              (''params'', PDict [(''spp'', PInt 64)])]"
      Inr "''render.png''"
      "fst (render_scene ok_parent_env idle_renderer Map.empty
              (PDict [(''type'', PStr ''scene'')]) (PDict [(''spp'', PInt 64)]) ''render.png'')"
      "fst (snd (render_scene ok_parent_env idle_renderer Map.empty
              (PDict [(''type'', PStr ''scene'')]) (PDict [(''spp'', PInt 64)]) ''render.png''))"
      "snd (snd (render_scene ok_parent_env idle_renderer Map.empty
              (PDict [(''type'', PStr ''scene'')]) (PDict [(''spp'', PInt 64)]) ''render.png''))"
      "reading_env (fst (snd (render_scene ok_parent_env idle_renderer Map.empty
              (PDict [(''type'', PStr ''scene'')]) (PDict [(''spp'', PInt 64)]) ''render.png'')))"]
  by (simp add: is_running_def idle_renderer_def ok_parent_env_def reading_env_def
      render_scene_def Let_def)

section \<open>One child at a time\<close>



section \<open>Cancelling\<close>




section \<open>The basic scene\<close>

















section \<open>The two preprocessors\<close>

text \<open>A dictionary with \<open>type\<close> \<open>look_at\<close> occurs somewhere in the value.\<close>

fun mentions_look_at :: "pyval \<Rightarrow> bool"
  and items_mention_look_at :: "(string \<times> pyval) list \<Rightarrow> bool"
  and list_mentions_look_at :: "pyval list \<Rightarrow> bool" where
  "mentions_look_at (PDict kvs) =
     (map_of kvs ''type'' = Some (PStr ''look_at'') \<or> items_mention_look_at kvs)"
| "mentions_look_at (PList xs) = list_mentions_look_at xs"
| "mentions_look_at (PTuple xs) = list_mentions_look_at xs"
| "mentions_look_at PNone = False"
| "mentions_look_at (PBool b) = False"
| "mentions_look_at (PInt i) = False"
| "mentions_look_at (PFloat x) = False"
| "mentions_look_at (PStr s) = False"
| "mentions_look_at (PTransform t) = False"
| "items_mention_look_at [] = False"
| "items_mention_look_at ((k, v) # kvs) = (mentions_look_at v \<or> items_mention_look_at kvs)"
| "list_mentions_look_at [] = False"
| "list_mentions_look_at (x # xs) = (mentions_look_at x \<or> list_mentions_look_at xs)"

definition look_at_scene :: pyval where
  "look_at_scene =
     PDict [(''type'', PStr ''scene''),
            (''sensor'', PDict
               [(''type'', PStr ''perspective''),
                (''to_world'', PDict
                   [(''type'', PStr ''look_at''),
                    (''origin'', PList [PInt 0, PInt 0, PInt 5]),
                    (''target'', PList [PInt 0, PInt 0, PInt 0]),
                    (''up'', PList [PInt 0, PInt 1, PInt 0])])])]"

lemma transform_type_agree:
  "map_of kvs ''type'' \<noteq> Some (PStr ''look_at'') \<Longrightarrow>
     transform_from_type (PDict kvs) = transform_of_type (PDict kvs)"
  by (auto simp add: transform_from_type_def transform_of_type_def dict_get_def Let_def
      split: option.splits)

lemma build_transform_agree:
  "\<not> mentions_look_at v \<Longrightarrow> build_transform_from_dict v = build_transform v"
  "\<not> items_mention_look_at kvs \<Longrightarrow> first_child_from_dict kvs = first_child kvs"
  by (induction v and kvs rule: build_transform_first_child.induct)
    (simp_all add: transform_type_agree split: option.split sum.split)

lemma items_mention_lookup:
  "\<not> items_mention_look_at kvs \<Longrightarrow> map_of kvs k = Some v \<Longrightarrow> \<not> mentions_look_at v"
  by (induction kvs) (auto split: if_splits)

lemma convert_to_world_agree:
  "\<not> mentions_look_at v \<Longrightarrow> convert_to_world_worker v = convert_to_world v"
  by (cases v) (simp_all add: convert_to_world_worker_def convert_to_world_def
      build_transform_agree(1) del: build_transform_from_dict.simps build_transform.simps)

lemma process_agree:
  "\<not> mentions_look_at v \<Longrightarrow> process_transforms_recursive v = process_recursive v"
  "\<not> items_mention_look_at kvs \<Longrightarrow> process_transforms_items kvs = process_items kvs"
  "\<not> list_mentions_look_at xs \<Longrightarrow> process_transforms_list xs = process_list xs"
proof (induction v and kvs and xs rule: process_recursive_process_items_process_list.induct)
  case (1 kvs)
  show ?case
  proof (cases "map_of kvs ''to_world''")
    case None
    with 1 show ?thesis by simp
  next
    case (Some to_world)
    with 1 have "\<not> mentions_look_at to_world"
      by (auto dest: items_mention_lookup)
    then have conv: "convert_to_world_worker to_world = convert_to_world to_world"
      by (rule convert_to_world_agree)
    show ?thesis
    proof (cases "is_list to_world \<or> is_dict to_world")
      case False
      with 1 Some show ?thesis by simp
    next
      case True
      show ?thesis
      proof (cases "convert_to_world to_world")
        case (Inl e)
        with Some True conv show ?thesis by simp
      next
        case (Inr t)
        with 1 Some True conv show ?thesis by simp
      qed
    qed
  qed
qed (simp_all split: sum.split)

text \<open>The two preprocessors agree on every scene without a \<open>look_at\<close> dictionary.\<close>

lemma preprocess_agree:
  "\<not> mentions_look_at scene_dict \<Longrightarrow>
     preprocess_scene_dict scene_dict = preprocess_transforms scene_dict"
  by (simp add: preprocess_scene_dict_def preprocess_transforms_def deepcopy_def process_agree)

text \<open>
  C8.  On a scene whose sensor is placed with \<open>look_at\<close>, as every scene generator of
  the repository does, \<open>preprocess_transforms\<close> builds the \<open>look_at\<close> transform, and
  \<open>RenderWorker._preprocess_scene_dict\<close>, whose builder has no \<open>look_at\<close> branch,
  builds the identity.
\<close>

theorem look_at_divergence:
  "preprocess_transforms look_at_scene =
     Inr (PDict [(''type'', PStr ''scene''),
                 (''sensor'', PDict
                    [(''type'', PStr ''perspective''),
                     (''to_world'', PTransform
                        (LookAt (PList [PInt 0, PInt 0, PInt 5]) (PList [PInt 0, PInt 0, PInt 0])
                           (PList [PInt 0, PInt 1, PInt 0])))])])
   \<and> preprocess_scene_dict look_at_scene =
     Inr (PDict [(''type'', PStr ''scene''),
                 (''sensor'', PDict
                    [(''type'', PStr ''perspective''),
                     (''to_world'', PTransform Identity)])])"
  by (simp add: look_at_scene_def preprocess_transforms_def preprocess_scene_dict_def deepcopy_def
      convert_to_world_def convert_to_world_worker_def transform_of_type_def
      transform_from_type_def dict_get_def dict_set_def is_list_def is_dict_def)


end
